theory Spec2Isabelle
  imports Main "HOL-Library.Sublist" "HOL-Library.AList"
begin

section \<open>JavaScript values and the host operations the client relies on\<close>

text \<open>
  The client of \<^verbatim>\<open>src/index.ts\<close> handles values of type \<^verbatim>\<open>any\<close>: the arguments of a
  decorated method, the request body, the credential properties of an instance. They are
  modelled by \<open>jsval\<close>: \<^verbatim>\<open>undefined\<close>, \<^verbatim>\<open>null\<close>, booleans, integral numbers (a
  \<open>Number n\<close> stands for the double of that value, so \<open>n\<close> is meant within the safe
  integer range), strings, arrays and plain objects (own enumerable properties in
  insertion order). Functions, symbols and objects with accessors or a \<^verbatim>\<open>toString\<close> of
  their own are outside the model. A string is a list of code units below 256.
\<close>

datatype jsval =
    Undefined
  | Null
  | Bool bool
  | Number int
  | Str string
  | Arr "jsval list"
  | Obj "(string \<times> jsval) list"

text \<open>
  What a computation of the client can end in besides a value: the \<^verbatim>\<open>SyntaxError\<close> of the
  \<^verbatim>\<open>RegExp\<close> constructor, or any other value thrown or rejected by a caller-supplied
  transform or by the transport. \<open>NotModelled\<close> is no behaviour of the program: it marks a
  regular expression source outside the fragment defined below.
\<close>

datatype js_error = SyntaxError | Thrown jsval | NotModelled

subsection \<open>ToBoolean and ToString\<close>

fun truthy :: "jsval \<Rightarrow> bool" where
  "truthy Undefined = False"
| "truthy Null = False"
| "truthy (Bool b) = b"
| "truthy (Number n) = (n \<noteq> 0)"
| "truthy (Str s) = (s \<noteq> [])"
| "truthy (Arr xs) = True"
| "truthy (Obj kvs) = True"

definition digit_char :: "nat \<Rightarrow> char" where
  "digit_char d = char_of (48 + d)"

function nat_to_string :: "nat \<Rightarrow> string" where
  "nat_to_string n =
     (if n < 10 then [digit_char n] else nat_to_string (n div 10) @ [digit_char (n mod 10)])"
  by pat_completeness auto
termination
  by (relation "measure id") auto

declare nat_to_string.simps [simp del]

definition int_to_string :: "int \<Rightarrow> string" where
  "int_to_string i = (if i < 0 then CHR ''-'' # nat_to_string (nat (- i)) else nat_to_string (nat i))"

fun join :: "string \<Rightarrow> string list \<Rightarrow> string" where
  "join sep [] = []"
| "join sep [s] = s"
| "join sep (s # t # ss) = s @ sep @ join sep (t # ss)"

text \<open>
  \<^verbatim>\<open>String(v)\<close>, which a template literal and \<^verbatim>\<open>String.prototype.replace\<close> apply to a
  value that is not a string. An array joins its elements with a comma, \<^verbatim>\<open>null\<close> and
  \<^verbatim>\<open>undefined\<close> elements giving the empty string.
\<close>

fun to_string :: "jsval \<Rightarrow> string" where
  "to_string Undefined = ''undefined''"
| "to_string Null = ''null''"
| "to_string (Bool b) = (if b then ''true'' else ''false'')"
| "to_string (Number n) = int_to_string n"
| "to_string (Str s) = s"
| "to_string (Arr xs) =
     join '','' (map (\<lambda>v. if v = Undefined \<or> v = Null then [] else to_string v) xs)"
| "to_string (Obj kvs) = ''[object Object]''"

text \<open>\<^verbatim>\<open>inputs[i]\<close>: reading past the end of the argument list gives \<^verbatim>\<open>undefined\<close>.\<close>

definition arg_at :: "jsval list \<Rightarrow> nat \<Rightarrow> jsval" where
  "arg_at inputs i = (if i < length inputs then inputs ! i else Undefined)"

text \<open>
  \<^verbatim>\<open>inputs[get(...)]\<close> where the lookup in the metadata may give \<^verbatim>\<open>undefined\<close>: the array
  has no property of that name.
\<close>

definition arg_at_opt :: "jsval list \<Rightarrow> nat option \<Rightarrow> jsval" where
  "arg_at_opt inputs idx = (case idx of None \<Rightarrow> Undefined | Some i \<Rightarrow> arg_at inputs i)"

text \<open>
  \<^verbatim>\<open>Object.keys(v)\<close> for a value that is not \<^verbatim>\<open>null\<close> or \<^verbatim>\<open>undefined\<close>: the own enumerable
  property names. An array and a string have their indices.
\<close>

fun Object_keys :: "jsval \<Rightarrow> string list" where
  "Object_keys (Obj kvs) = map fst kvs"
| "Object_keys (Arr xs) = map nat_to_string [0..<length xs]"
| "Object_keys (Str s) = map nat_to_string [0..<length s]"
| "Object_keys v = []"

subsection \<open>Case mapping and substring search\<close>

text \<open>
  \<^verbatim>\<open>toLowerCase\<close> and \<^verbatim>\<open>toUpperCase\<close> on code units below 256. Three of them have an upper
  case outside that range (0xB5, 0xDF, 0xFF); the model leaves them unchanged.
\<close>

definition lower_char :: "char \<Rightarrow> char" where
  "lower_char c =
     (let n = (of_char c :: nat)
      in if (65 \<le> n \<and> n \<le> 90) \<or> (192 \<le> n \<and> n \<le> 222 \<and> n \<noteq> 215) then char_of (n + 32) else c)"

definition upper_char :: "char \<Rightarrow> char" where
  "upper_char c =
     (let n = (of_char c :: nat)
      in if (97 \<le> n \<and> n \<le> 122) \<or> (224 \<le> n \<and> n \<le> 254 \<and> n \<noteq> 247) then char_of (n - 32) else c)"

definition toLowerCase :: "string \<Rightarrow> string" where
  "toLowerCase s = map lower_char s"

definition toUpperCase :: "string \<Rightarrow> string" where
  "toUpperCase s = map upper_char s"

text \<open>\<^verbatim>\<open>s.indexOf(sub)\<close>: the first position where \<open>sub\<close> starts, or -1.\<close>

fun indexOf_from :: "nat \<Rightarrow> string \<Rightarrow> string \<Rightarrow> int" where
  "indexOf_from i [] sub = (if sub = [] then int i else - 1)"
| "indexOf_from i (c # cs) sub =
     (if prefix sub (c # cs) then int i else indexOf_from (Suc i) cs sub)"

definition indexOf :: "string \<Rightarrow> string \<Rightarrow> int" where
  "indexOf s sub = indexOf_from 0 s sub"

subsection \<open>Base64 of a string\<close>

text \<open>
  \<^verbatim>\<open>Buffer.from(str).toString('base64')\<close>: the UTF-8 bytes of the string, three bytes to four
  characters of the alphabet, padded with \<^verbatim>\<open>=\<close>.
\<close>

definition utf8_bytes :: "string \<Rightarrow> nat list" where
  "utf8_bytes s =
     concat (map (\<lambda>c. let n = (of_char c :: nat)
                        in if n < 128 then [n] else [192 + n div 64, 128 + n mod 64]) s)"

definition base64_alphabet :: string where
  "base64_alphabet = ''ABCDEFGHIJKLMNOPQRSTUVWXYZabcdefghijklmnopqrstuvwxyz0123456789+/''"

definition base64_char :: "nat \<Rightarrow> char" where
  "base64_char i = base64_alphabet ! (i mod 64)"

fun base64_encode :: "nat list \<Rightarrow> string" where
  "base64_encode [] = []"
| "base64_encode [a] =
     [base64_char (a div 4), base64_char ((a mod 4) * 16), CHR ''='', CHR ''='']"
| "base64_encode [a, b] =
     [base64_char (a div 4), base64_char ((a mod 4) * 16 + b div 16),
      base64_char ((b mod 16) * 4), CHR ''='']"
| "base64_encode (a # b # c # rest) =
     [base64_char (a div 4), base64_char ((a mod 4) * 16 + b div 16),
      base64_char ((b mod 16) * 4 + c div 64), base64_char (c mod 64)] @ base64_encode rest"

subsection \<open>JSON.stringify\<close>

definition hex_char :: "nat \<Rightarrow> char" where
  "hex_char d = ''0123456789abcdef'' ! (d mod 16)"

definition json_escape_char :: "char \<Rightarrow> string" where
  "json_escape_char c =
     (let n = (of_char c :: nat)
      in if n = 8 then [CHR 0x5C, CHR ''b'']
         else if n = 9 then [CHR 0x5C, CHR ''t'']
         else if n = 10 then [CHR 0x5C, CHR ''n'']
         else if n = 12 then [CHR 0x5C, CHR ''f'']
         else if n = 13 then [CHR 0x5C, CHR ''r'']
         else if n = 34 then [CHR 0x5C, CHR 0x22]
         else if n = 92 then [CHR 0x5C, CHR 0x5C]
         else if n < 32 then [CHR 0x5C, CHR ''u'', CHR ''0'', CHR ''0'', hex_char (n div 16), hex_char (n mod 16)]
         else [c])"

definition json_quote :: "string \<Rightarrow> string" where
  "json_quote s = CHR 0x22 # concat (map json_escape_char s) @ [CHR 0x22]"

text \<open>
  The text \<^verbatim>\<open>JSON.stringify\<close> produces without indentation; \<open>None\<close> where it returns
  \<^verbatim>\<open>undefined\<close>. A property whose value is \<^verbatim>\<open>undefined\<close> is left out of an object, and an
  \<^verbatim>\<open>undefined\<close> array element is written \<^verbatim>\<open>null\<close>.
\<close>

fun json_text :: "jsval \<Rightarrow> string option" where
  "json_text Undefined = None"
| "json_text Null = Some ''null''"
| "json_text (Bool b) = Some (if b then ''true'' else ''false'')"
| "json_text (Number n) = Some (int_to_string n)"
| "json_text (Str s) = Some (json_quote s)"
| "json_text (Arr xs) =
     Some (''['' @ join '','' (map (\<lambda>v. case json_text v of None \<Rightarrow> ''null'' | Some t \<Rightarrow> t) xs) @ '']'')"
| "json_text (Obj kvs) =
     Some (''{'' @ join '',''
        (concat (map (\<lambda>kv. case json_text (snd kv) of None \<Rightarrow> []
                            | Some t \<Rightarrow> [json_quote (fst kv) @ '':'' @ t]) kvs)) @ ''}'')"

definition JSON_stringify :: "jsval \<Rightarrow> jsval" where
  "JSON_stringify v = (case json_text v of None \<Rightarrow> Undefined | Some t \<Rightarrow> Str t)"

subsection \<open>Regular expressions built from a placeholder name, and global replacement\<close>

text \<open>
  The client builds \<^verbatim>\<open>new RegExp(`{${paramKey}}`, 'g')\<close>. The model covers the sources of
  the shape \<^verbatim>\<open>{name}\<close> in which every character of the name is either the wildcard \<^verbatim>\<open>.\<close>
  or no syntax character of the pattern language. Such a source is a sequence of
  one-character atoms (without the \<^verbatim>\<open>u\<close> flag a brace that starts no quantifier stands for
  itself), unless the name makes the whole source a braced quantifier (\<^verbatim>\<open>{2}\<close>, \<^verbatim>\<open>{2,}\<close>,
  \<^verbatim>\<open>{2,5}\<close>) with nothing to repeat, which the constructor refuses with a \<^verbatim>\<open>SyntaxError\<close>.
  Every other source gives \<open>NotModelled\<close>.
\<close>

datatype pattern_atom = Lit char | AnyChar

definition syntax_chars :: "char list" where
  "syntax_chars = CHR 0x5C # ''^$.*+?()[]{}|''"

definition is_digit :: "char \<Rightarrow> bool" where
  "is_digit c = (c \<in> set ''0123456789'')"

definition braced_quantifier_body :: "string \<Rightarrow> bool" where
  "braced_quantifier_body b =
     (takeWhile is_digit b \<noteq> [] \<and>
      (case dropWhile is_digit b of
         [] \<Rightarrow> True
       | c # r \<Rightarrow> c = CHR '','' \<and> list_all is_digit r))"

definition atom_of :: "char \<Rightarrow> pattern_atom" where
  "atom_of c = (if c = CHR ''.'' then AnyChar else Lit c)"

definition in_fragment :: "string \<Rightarrow> bool" where
  "in_fragment name = list_all (\<lambda>c. c = CHR ''.'' \<or> c \<notin> set syntax_chars) name"

definition RegExp :: "string \<Rightarrow> js_error + pattern_atom list" where
  "RegExp source =
     (case source of
        [] \<Rightarrow> Inl NotModelled
      | c # rest \<Rightarrow>
          if c = CHR ''{'' \<and> rest \<noteq> [] \<and> last rest = CHR ''}'' \<and> in_fragment (butlast rest)
          then (if braced_quantifier_body (butlast rest) then Inl SyntaxError
                else Inr (Lit c # map atom_of (butlast rest) @ [Lit (CHR ''}'')]))
          else Inl NotModelled)"

text \<open>The wildcard matches every code unit but a line terminator.\<close>

fun atom_matches :: "pattern_atom \<Rightarrow> char \<Rightarrow> bool" where
  "atom_matches (Lit a) c = (c = a)"
| "atom_matches AnyChar c = (c \<noteq> CHR 0x0A \<and> c \<noteq> CHR 0x0D)"

fun matches_prefix :: "pattern_atom list \<Rightarrow> string \<Rightarrow> bool" where
  "matches_prefix [] s = True"
| "matches_prefix (a # as) [] = False"
| "matches_prefix (a # as) (c # cs) = (atom_matches a c \<and> matches_prefix as cs)"

text \<open>
  \<^verbatim>\<open>GetSubstitution\<close> for a match without capture groups: in the replacement text
  \<^verbatim>\<open>$$\<close> stands for a dollar sign, \<^verbatim>\<open>$&\<close> for the matched text, a dollar sign with a
  backquote for the text before the match and with a quote for the text after it; every
  other character, a lone dollar sign included, stands for itself.
\<close>

fun GetSubstitution :: "string \<Rightarrow> string \<Rightarrow> string \<Rightarrow> string \<Rightarrow> string" where
  "GetSubstitution matched preceding following [] = []"
| "GetSubstitution matched preceding following [c] = [c]"
| "GetSubstitution matched preceding following (c # d # r) =
     (if c = CHR ''$'' \<and> d = CHR ''$'' then CHR ''$'' # GetSubstitution matched preceding following r
      else if c = CHR ''$'' \<and> d = CHR ''&'' then matched @ GetSubstitution matched preceding following r
      else if c = CHR ''$'' \<and> d = CHR 0x60 then preceding @ GetSubstitution matched preceding following r
      else if c = CHR ''$'' \<and> d = CHR 0x27 then following @ GetSubstitution matched preceding following r
      else c # GetSubstitution matched preceding following (d # r))"

text \<open>
  \<^verbatim>\<open>str.replace(re, replacement)\<close> for a global expression of the fragment: the matches are
  found from left to right without overlap, and each is replaced by the substitution
  computed from the replacement text. \<open>scanned\<close> is the part of the string already scanned.
\<close>

function replace_matches :: "pattern_atom list \<Rightarrow> string \<Rightarrow> string \<Rightarrow> string \<Rightarrow> string" where
  "replace_matches re repl scanned [] = []"
| "replace_matches re repl scanned (c # cs) =
     (if re \<noteq> [] \<and> matches_prefix re (c # cs)
      then GetSubstitution (take (length re) (c # cs)) scanned (drop (length re) (c # cs)) repl
           @ replace_matches re repl (scanned @ take (length re) (c # cs)) (drop (length re) (c # cs))
      else c # replace_matches re repl (scanned @ [c]) cs)"
  by pat_completeness auto
termination
  by (relation "measure (\<lambda>(re, repl, scanned, s). length s)") auto

definition String_replace :: "string \<Rightarrow> pattern_atom list \<Rightarrow> jsval \<Rightarrow> string" where
  "String_replace s re replaceValue = replace_matches re (to_string replaceValue) [] s"

section \<open>The metadata store\<close>

text \<open>
  The parameter and property decorators write into \<^verbatim>\<open>target.__decorators\<close> with
  \<^verbatim>\<open>lodash.set\<close>, and the method wrapper reads it with \<^verbatim>\<open>lodash.get\<close>. Under a method name
  the store holds \<^verbatim>\<open>@PathParam\<close> (placeholder name to argument index, an object, kept here
  in insertion order), \<^verbatim>\<open>@QueryParams\<close> and \<^verbatim>\<open>@RequestBody\<close> (an argument index each);
  under \<^verbatim>\<open>@CredentialProperty\<close> it holds the property name of each credential role. A path
  that was never set reads as \<^verbatim>\<open>undefined\<close> (\<open>None\<close>), and as the empty object for
  \<^verbatim>\<open>@PathParam\<close>, which \<^verbatim>\<open>_getPathParams\<close> defaults so.

  \<^verbatim>\<open>lodash.set\<close> walks the path through whatever object it finds, inherited ones included,
  and creates an array where the next key is an index. The model covers the paths on
  which it creates and updates plain objects of the target's own: a method name that is
  no property name of \<^verbatim>\<open>Object.prototype\<close> and no index, and a placeholder name that is no
  index. For any other method or placeholder name a registration gives \<open>None\<close>, which
  says nothing about the program. One name of the covered paths is special: assigning a
  number to the property \<^verbatim>\<open>__proto__\<close> of the \<^verbatim>\<open>@PathParam\<close> object stores nothing.
\<close>

datatype credentialType = AccessToken | Username | Password

record method_decorators =
  atPathParam :: "(string \<times> nat) list"
  atQueryParams :: "nat option"
  atRequestBody :: "nat option"

record decorators_store =
  of_method :: "string \<Rightarrow> method_decorators"
  atCredentialProperty :: "credentialType \<Rightarrow> string option"

definition no_decorators :: decorators_store where
  "no_decorators =
     \<lparr>of_method = (\<lambda>m. \<lparr>atPathParam = [], atQueryParams = None, atRequestBody = None\<rparr>),
      atCredentialProperty = (\<lambda>r. None)\<rparr>"

definition Object_prototype_names :: "string list" where
  "Object_prototype_names =
     [''__proto__'', ''constructor'', ''toString'', ''toLocaleString'', ''valueOf'',
      ''hasOwnProperty'', ''isPrototypeOf'', ''propertyIsEnumerable'', ''__defineGetter__'',
      ''__defineSetter__'', ''__lookupGetter__'', ''__lookupSetter__'']"

text \<open>A decimal numeral without a leading zero: the names that can be indices.\<close>

definition canonical_uint :: "string \<Rightarrow> bool" where
  "canonical_uint s = (s \<noteq> [] \<and> list_all is_digit s \<and> (s = ''0'' \<or> hd s \<noteq> CHR ''0''))"

definition modelled_method_name :: "string \<Rightarrow> bool" where
  "modelled_method_name methodName =
     (methodName \<notin> set Object_prototype_names \<and> \<not> canonical_uint methodName)"

definition PathParam :: "string \<Rightarrow> decorators_store \<Rightarrow> string \<Rightarrow> nat \<Rightarrow> decorators_store option" where
  "PathParam paramKey target methodName paramIdx =
     (if \<not> modelled_method_name methodName \<or> canonical_uint paramKey then None
      else if paramKey = ''__proto__'' then Some target
      else Some (target\<lparr>of_method := (of_method target)(methodName :=
             (of_method target methodName)\<lparr>atPathParam :=
                AList.update paramKey paramIdx (atPathParam (of_method target methodName))\<rparr>)\<rparr>))"

definition QueryParams :: "decorators_store \<Rightarrow> string \<Rightarrow> nat \<Rightarrow> decorators_store option" where
  "QueryParams target methodName paramIdx =
     (if \<not> modelled_method_name methodName then None
      else Some (target\<lparr>of_method := (of_method target)(methodName :=
             (of_method target methodName)\<lparr>atQueryParams := Some paramIdx\<rparr>)\<rparr>))"

definition RequestBody :: "decorators_store \<Rightarrow> string \<Rightarrow> nat \<Rightarrow> decorators_store option" where
  "RequestBody target methodName paramIdx =
     (if \<not> modelled_method_name methodName then None
      else Some (target\<lparr>of_method := (of_method target)(methodName :=
             (of_method target methodName)\<lparr>atRequestBody := Some paramIdx\<rparr>)\<rparr>))"

definition CredentialProperty :: "credentialType \<Rightarrow> decorators_store \<Rightarrow> string \<Rightarrow> decorators_store" where
  "CredentialProperty credentialType target propertyName =
     target\<lparr>atCredentialProperty := (atCredentialProperty target)(credentialType := Some propertyName)\<rparr>"

section \<open>The client configurator\<close>

text \<open>
  A header object is a map from header name to value; \<^verbatim>\<open>objectAssign(a, b)\<close> on two of them
  is \<open>a ++ b\<close>. Of the \<^verbatim>\<open>RequestInit\<close> fields of \<^verbatim>\<open>RestClientOptions\<close> the model keeps the four
  the configurator gives a default; a field the caller leaves out is \<open>None\<close>.
\<close>

type_synonym headers = "string \<Rightarrow> string option"

record RestClientOptions =
  rc_baseUrl :: string
  rc_authType :: "string option"
  rc_mode :: "string option"
  rc_cache :: "string option"
  rc_credentials :: "string option"
  rc_headers :: "headers option"

record transport_config =
  mode :: string
  cache :: string
  credentials :: string
  headers :: headers

record client_class =
  proto_defaultConfigs :: transport_config
  proto_baseUrl :: string
  proto_authType :: string
  proto_decorators :: decorators_store

definition builtin_headers :: headers where
  "builtin_headers =
     [''Accept'' \<mapsto> ''application/json'', ''Content-Type'' \<mapsto> ''application/json'']"

text \<open>
  \<^verbatim>\<open>RestClient(restOptions)(target)\<close>: the class \<^verbatim>\<open>f\<close> it returns shares the prototype of
  \<open>target\<close>, on which it has put \<^verbatim>\<open>defaultConfigs\<close>, \<^verbatim>\<open>baseUrl\<close> and \<^verbatim>\<open>authType\<close>.
\<close>

definition RestClient :: "RestClientOptions \<Rightarrow> decorators_store \<Rightarrow> client_class" where
  "RestClient restOptions target =
     (let defaultConfigsToUse =
            \<lparr>mode = (case rc_mode restOptions of None \<Rightarrow> ''cors'' | Some v \<Rightarrow> v),
             cache = (case rc_cache restOptions of None \<Rightarrow> ''no-cache'' | Some v \<Rightarrow> v),
             credentials = (case rc_credentials restOptions of None \<Rightarrow> ''include'' | Some v \<Rightarrow> v),
             headers = (case rc_headers restOptions of None \<Rightarrow> Map.empty | Some h \<Rightarrow> h)\<rparr>
      in \<lparr>proto_defaultConfigs =
             defaultConfigsToUse\<lparr>headers := builtin_headers ++ headers defaultConfigsToUse\<rparr>,
           proto_baseUrl = rc_baseUrl restOptions,
           proto_authType = (case rc_authType restOptions of None \<Rightarrow> [] | Some a \<Rightarrow> a),
           proto_decorators = target\<rparr>)"

text \<open>
  An instance of a decorated class as a call sees it: the three fields and the metadata it
  inherits from the prototype, and what \<^verbatim>\<open>instance[name]\<close> reads for a property name
  (\<open>props\<close>; a property it does not have reads as \<^verbatim>\<open>undefined\<close>). A call on an instance
  of a class that \<^verbatim>\<open>RestClient\<close> has not decorated is outside the model.
\<close>

record client_instance =
  defaultConfigs :: transport_config
  baseUrl :: string
  authType :: string
  decorators :: decorators_store
  props :: "string \<Rightarrow> jsval"

definition new_instance :: "client_class \<Rightarrow> (string \<Rightarrow> jsval) \<Rightarrow> client_instance" where
  "new_instance f own =
     \<lparr>defaultConfigs = proto_defaultConfigs f, baseUrl = proto_baseUrl f,
      authType = proto_authType f, decorators = proto_decorators f, props = own\<rparr>"

section \<open>Request assembly\<close>

record Request =
  url :: string
  http_method :: string
  request_headers :: headers
  body :: jsval

record Response =
  resp_url :: string
  ok :: bool
  status :: nat
  statusText :: string
  resp_text :: "js_error + string"

record RestApiOptions =
  api_headers :: "headers option"
  api_method :: "string option"
  request_transform :: "(Request \<Rightarrow> jsval \<Rightarrow> client_instance \<Rightarrow> js_error + Request) option"
  response_transform :: "(Request \<Rightarrow> Response \<Rightarrow> client_instance \<Rightarrow> js_error + jsval) option"

definition isOfTypeJson :: "string option \<Rightarrow> bool" where
  "isOfTypeJson typeAsString =
     (indexOf (toLowerCase (case typeAsString of None \<Rightarrow> [] | Some t \<Rightarrow> t)) ''application/json'' \<ge> 0)"

definition defaultRequestTransform :: "Request \<Rightarrow> jsval \<Rightarrow> client_instance \<Rightarrow> js_error + Request" where
  "defaultRequestTransform fetchOptionToUse body' instance =
     (let bodyToUse =
            (if http_method fetchOptionToUse = ''GET'' then Undefined
             else if isOfTypeJson (request_headers fetchOptionToUse ''Accept'')
                  then JSON_stringify body'
                  else (if truthy body' then body' else Null))
      in Inr (fetchOptionToUse\<lparr>body := bodyToUse\<rparr>))"

text \<open>
  \<^verbatim>\<open>JSON.parse\<close> is a parameter: a function from the text to the parsed value or the error
  it throws.
\<close>

definition defaultResponseTransform ::
  "(string \<Rightarrow> js_error + jsval) \<Rightarrow> Request \<Rightarrow> Response \<Rightarrow> client_instance \<Rightarrow> js_error + jsval" where
  "defaultResponseTransform JSON_parse fetchOptionToUse resp instance =
     (case resp_text resp of
        Inl e \<Rightarrow> Inl e
      | Inr respText \<Rightarrow>
          if isOfTypeJson (request_headers fetchOptionToUse ''Accept'')
          then (case JSON_parse respText of Inr v \<Rightarrow> Inr v | Inl e \<Rightarrow> Inr (Str respText))
          else Inr (Str respText))"

definition getRequestBody :: "client_instance \<Rightarrow> string \<Rightarrow> jsval list \<Rightarrow> jsval" where
  "getRequestBody instance methodName inputs =
     arg_at_opt inputs (atRequestBody (of_method (decorators instance) methodName))"

definition getPathParams :: "client_instance \<Rightarrow> string \<Rightarrow> (string \<times> nat) list" where
  "getPathParams instance methodName = atPathParam (of_method (decorators instance) methodName)"

definition getQueryParams :: "client_instance \<Rightarrow> string \<Rightarrow> jsval list \<Rightarrow> jsval" where
  "getQueryParams instance methodName inputs =
     (let v = arg_at_opt inputs (atQueryParams (of_method (decorators instance) methodName))
      in if truthy v then v else Obj [])"

definition getBase64FromString :: "string \<Rightarrow> string" where
  "getBase64FromString str = base64_encode (utf8_bytes str)"

text \<open>
  \<^verbatim>\<open>instance[get(...)]\<close>: a credential role that was never registered gives the key
  \<^verbatim>\<open>undefined\<close>, which reads the property of that name.
\<close>

definition credential_property :: "client_instance \<Rightarrow> credentialType \<Rightarrow> jsval" where
  "credential_property instance role =
     props instance (case atCredentialProperty (decorators instance) role of
                       None \<Rightarrow> ''undefined'' | Some propertyName \<Rightarrow> propertyName)"

definition getCredential :: "client_instance \<Rightarrow> jsval" where
  "getCredential instance =
     (if authType instance = ''Bearer'' then credential_property instance AccessToken
      else if authType instance = ''Basic''
      then (let username = credential_property instance Username;
                password = credential_property instance Password
            in Str (getBase64FromString (to_string username @ '':'' @ to_string password)))
      else Undefined)"

text \<open>
  One round of the \<^verbatim>\<open>forEach\<close> over the placeholder names; an error thrown by the
  \<^verbatim>\<open>RegExp\<close> constructor ends the call.
\<close>

definition replacePathParam :: "jsval list \<Rightarrow> string \<times> nat \<Rightarrow> js_error + string \<Rightarrow> js_error + string" where
  "replacePathParam inputs entry acc =
     (case acc of
        Inl e \<Rightarrow> Inl e
      | Inr urlToUse \<Rightarrow>
          (case RegExp (''{'' @ fst entry @ ''}'') of
             Inl e \<Rightarrow> Inl e
           | Inr re \<Rightarrow> Inr (String_replace urlToUse re (arg_at inputs (snd entry)))))"

text \<open>
  \<^verbatim>\<open>Object.keys(pathParams)\<close> lists the names that are array indices first, in ascending
  numeric order, and then the other names in insertion order.
\<close>

definition digits_value :: "string \<Rightarrow> int" where
  "digits_value s = foldl (\<lambda>n c. 10 * n + (of_char c - 48)) 0 s"

definition is_array_index :: "string \<Rightarrow> bool" where
  "is_array_index s = (canonical_uint s \<and> digits_value s < 4294967295)"

definition keys_order :: "(string \<times> nat) list \<Rightarrow> (string \<times> nat) list" where
  "keys_order pathParams =
     sort_key (\<lambda>entry. digits_value (fst entry)) (filter (\<lambda>entry. is_array_index (fst entry)) pathParams)
       @ filter (\<lambda>entry. \<not> is_array_index (fst entry)) pathParams"

definition urlWithPathParams :: "string \<Rightarrow> string \<Rightarrow> (string \<times> nat) list \<Rightarrow> jsval list \<Rightarrow> js_error + string" where
  "urlWithPathParams base template pathParams inputs =
     fold (replacePathParam inputs) (keys_order pathParams) (Inr (base @ template))"

definition urlWithQueryString :: "(jsval \<Rightarrow> string) \<Rightarrow> string \<Rightarrow> jsval \<Rightarrow> string" where
  "urlWithQueryString qs_stringify urlToUse queryParams =
     (if length (Object_keys queryParams) > 0 then urlToUse @ ''?'' @ qs_stringify queryParams
      else urlToUse)"

definition mergedHeaders :: "client_instance \<Rightarrow> RestApiOptions \<Rightarrow> headers" where
  "mergedHeaders instance restApiOptions =
     Map.empty ++ headers (defaultConfigs instance)
       ++ (case api_headers restApiOptions of None \<Rightarrow> Map.empty | Some h \<Rightarrow> h)"

definition withAuthorization :: "client_instance \<Rightarrow> headers \<Rightarrow> headers" where
  "withAuthorization instance headersToUse =
     (let credential = getCredential instance
      in if authType instance \<noteq> [] \<and> truthy credential
         then headersToUse(''Authorization'' \<mapsto> authType instance @ '' '' @ to_string credential)
         else headersToUse)"

text \<open>
  The fetch options handed to the request transform: \<^verbatim>\<open>url\<close>, the upper-cased method and
  the headers (the abort signal is not modelled; \<^verbatim>\<open>RestApiOptions\<close> declares no further
  option, so nothing else is merged in and the options carry no body yet).
\<close>

definition fetchOptions ::
  "(jsval \<Rightarrow> string) \<Rightarrow> string \<Rightarrow> RestApiOptions \<Rightarrow> string \<Rightarrow> client_instance \<Rightarrow> jsval list \<Rightarrow> js_error + Request" where
  "fetchOptions qs_stringify template restApiOptions methodName instance inputs =
     (case urlWithPathParams (baseUrl instance) template (getPathParams instance methodName) inputs of
        Inl e \<Rightarrow> Inl e
      | Inr urlToUse \<Rightarrow>
          Inr \<lparr>url = urlWithQueryString qs_stringify urlToUse (getQueryParams instance methodName inputs),
               http_method = toUpperCase (case api_method restApiOptions of None \<Rightarrow> ''GET'' | Some m \<Rightarrow> m),
               request_headers = withAuthorization instance (mergedHeaders instance restApiOptions),
               body = Undefined\<rparr>)"

text \<open>
  \<^verbatim>\<open>RestApi(url, restApiOptions)\<close> replaces the method by a function of the arguments. The
  model gives what the request transform resolves to, which is what the transport is
  called with: \<open>Inl\<close> when the call throws or the transform rejects.
\<close>

definition RestApi ::
  "(jsval \<Rightarrow> string) \<Rightarrow> string \<Rightarrow> RestApiOptions \<Rightarrow> string \<Rightarrow> client_instance \<Rightarrow> jsval list \<Rightarrow> js_error + Request" where
  "RestApi qs_stringify template restApiOptions methodName instance inputs =
     (case fetchOptions qs_stringify template restApiOptions methodName instance inputs of
        Inl e \<Rightarrow> Inl e
      | Inr fetchOptionToUse \<Rightarrow>
          (case request_transform restApiOptions of
             None \<Rightarrow> defaultRequestTransform
           | Some t \<Rightarrow> t) fetchOptionToUse (getRequestBody instance methodName inputs) instance)"

text \<open>
  The deferred result of the call: the transport (\<^verbatim>\<open>node-fetch\<close>, a parameter) is called with
  the URL and the transformed options, and the response transform gives the result. A
  failure at any stage is the outcome.
\<close>

definition fetchData :: "(string \<Rightarrow> Request \<Rightarrow> js_error + Response) \<Rightarrow> Request \<Rightarrow> js_error + Response" where
  "fetchData nodeFetch fetchOptionToUse = nodeFetch (url fetchOptionToUse) fetchOptionToUse"

definition RestApi_result ::
  "(string \<Rightarrow> Request \<Rightarrow> js_error + Response) \<Rightarrow> (string \<Rightarrow> js_error + jsval) \<Rightarrow> (jsval \<Rightarrow> string)
     \<Rightarrow> string \<Rightarrow> RestApiOptions \<Rightarrow> string \<Rightarrow> client_instance \<Rightarrow> jsval list \<Rightarrow> js_error + jsval" where
  "RestApi_result nodeFetch JSON_parse qs_stringify template restApiOptions methodName instance inputs =
     (case RestApi qs_stringify template restApiOptions methodName instance inputs of
        Inl e \<Rightarrow> Inl e
      | Inr fetchOptionToUse \<Rightarrow>
          (case fetchData nodeFetch fetchOptionToUse of
             Inl e \<Rightarrow> Inl e
           | Inr resp \<Rightarrow>
               (case response_transform restApiOptions of
                  None \<Rightarrow> defaultResponseTransform JSON_parse
                | Some t \<Rightarrow> t) fetchOptionToUse resp instance))"

section \<open>The URL the specification describes\<close>

text \<open>
  The specification has every occurrence of the token \<^verbatim>\<open>{name}\<close> replaced by the string form
  of the bound argument, binding after binding. \<open>replace_token\<close> replaces the occurrences
  of a token from left to right, and \<open>spec_url\<close> does so for each binding in turn.
  \<open>plain_name\<close> holds of a placeholder name that has no syntax character of the pattern
  language and does not turn the braces into a quantifier.
\<close>

definition plain_name :: "string \<Rightarrow> bool" where
  "plain_name name = (list_all (\<lambda>c. c \<notin> set syntax_chars) name \<and> \<not> braced_quantifier_body name)"

function replace_token :: "string \<Rightarrow> string \<Rightarrow> string \<Rightarrow> string" where
  "replace_token tok v [] = []"
| "replace_token tok v (c # cs) =
     (if tok \<noteq> [] \<and> prefix tok (c # cs)
      then v @ replace_token tok v (drop (length tok) (c # cs))
      else c # replace_token tok v cs)"
  by pat_completeness auto
termination
  by (relation "measure (\<lambda>(tok, v, s). length s)") auto

definition spec_url :: "string \<Rightarrow> string \<Rightarrow> (string \<times> nat) list \<Rightarrow> jsval list \<Rightarrow> string" where
  "spec_url base template pathParams inputs =
     fold (\<lambda>entry u. replace_token (''{'' @ fst entry @ ''}'') (to_string (arg_at inputs (snd entry))) u)
       pathParams (base @ template)"

section \<open>An example client\<close>

text \<open>
  A client with Bearer authentication whose method \<^verbatim>\<open>getUser\<close> binds the placeholder
  \<^verbatim>\<open>id\<close> to its first argument, the query object to its second and the body to its
  third; the access token is the property \<^verbatim>\<open>token\<close>. \<open>qs_flat\<close> is a query string
  encoder for flat objects.
\<close>

definition example_registrations :: "decorators_store option" where
  "example_registrations =
     Option.bind (Option.bind (PathParam ''id'' no_decorators ''getUser'' 0)
                    (\<lambda>target. QueryParams target ''getUser'' 1))
       (\<lambda>target. RequestBody target ''getUser'' 2)"

definition example_store :: decorators_store where
  "example_store =
     CredentialProperty AccessToken
       (case example_registrations of None \<Rightarrow> no_decorators | Some target \<Rightarrow> target)
       ''token''"

definition example_options :: RestClientOptions where
  "example_options =
     \<lparr>rc_baseUrl = ''http://api.test'', rc_authType = Some ''Bearer'', rc_mode = None,
      rc_cache = Some ''default'', rc_credentials = None,
      rc_headers = Some [''X-App'' \<mapsto> ''demo'', ''Accept'' \<mapsto> ''text/plain'']\<rparr>"

definition example_client :: client_instance where
  "example_client =
     new_instance (RestClient example_options example_store)
       (\<lambda>p. if p = ''token'' then Str ''tok'' else Undefined)"

definition basic_client :: "jsval \<Rightarrow> jsval \<Rightarrow> client_instance" where
  "basic_client u p =
     new_instance
       (RestClient (example_options\<lparr>rc_authType := Some ''Basic''\<rparr>)
          (CredentialProperty Password (CredentialProperty Username no_decorators ''user'') ''pass''))
       (\<lambda>n. if n = ''user'' then u else if n = ''pass'' then p else Undefined)"

definition qs_flat :: "jsval \<Rightarrow> string" where
  "qs_flat v =
     (case v of
        Obj kvs \<Rightarrow> join ''&'' (map (\<lambda>kv. fst kv @ ''='' @ to_string (snd kv)) kvs)
      | _ \<Rightarrow> [])"

definition no_options :: RestApiOptions where
  "no_options = \<lparr>api_headers = None, api_method = None, request_transform = None, response_transform = None\<rparr>"

text \<open>
  A stand-in for \<^verbatim>\<open>JSON.parse\<close> that knows one text, a response carrying a given text, and
  the fetch options of a JSON request.
\<close>

definition example_parse :: "string \<Rightarrow> js_error + jsval" where
  \<open>example_parse t = (if t = ''{"a":1}'' then Inr (Obj [(''a'', Number 1)]) else Inl SyntaxError)\<close>

definition example_response :: "string \<Rightarrow> Response" where
  "example_response t =
     \<lparr>resp_url = ''http://api.test/items'', ok = True, status = 200, statusText = ''OK'',
      resp_text = Inr t\<rparr>"

definition json_request :: Request where
  "json_request =
     \<lparr>url = ''http://api.test/items'', http_method = ''POST'', request_headers = builtin_headers,
      body = Undefined\<rparr>"

text \<open>What was sent, read off the outcome of a call.\<close>

definition sent_url :: "js_error + Request \<Rightarrow> js_error + string" where
  "sent_url res = map_sum id url res"

definition sent_method :: "js_error + Request \<Rightarrow> js_error + string" where
  "sent_method res = map_sum id http_method res"

definition sent_body :: "js_error + Request \<Rightarrow> js_error + jsval" where
  "sent_body res = map_sum id body res"

definition sent_header :: "string \<Rightarrow> js_error + Request \<Rightarrow> js_error + string option" where
  "sent_header name res = map_sum id (\<lambda>r. request_headers r name) res"

section \<open>Facts about the host operations\<close>

lemma indexOf_from_nonneg: "(0 \<le> indexOf_from i s sub) = sublist sub s"
  by (induction s arbitrary: i) (auto simp: sublist_Cons_right)

lemma isOfTypeJson_iff:
  "isOfTypeJson t = sublist ''application/json'' (toLowerCase (case t of None \<Rightarrow> [] | Some a \<Rightarrow> a))"
  by (simp add: isOfTypeJson_def indexOf_def indexOf_from_nonneg)

lemma sublist_toLowerCase:
  assumes "sublist xs ys"
  shows "sublist (toLowerCase xs) (toLowerCase ys)"
proof -
  from assms obtain ps ss where "ys = ps @ xs @ ss"
    by (auto simp: sublist_def)
  then have "toLowerCase ys = toLowerCase ps @ toLowerCase xs @ toLowerCase ss"
    by (simp add: toLowerCase_def)
  then show ?thesis
    by (metis sublist_appendI)
qed

lemma toLowerCase_json: "toLowerCase ''application/json'' = ''application/json''"
  by (simp add: toLowerCase_def lower_char_def)

lemma contains_json_isOfTypeJson:
  "sublist ''application/json'' a \<Longrightarrow> isOfTypeJson (Some a)"
  using sublist_toLowerCase [of "''application/json''" a]
  by (simp add: isOfTypeJson_iff toLowerCase_json)

lemma toUpperCase_get: "toUpperCase ''get'' = ''GET''"
  by (simp add: toUpperCase_def upper_char_def char_of_eq_iff)

lemma toUpperCase_GET: "toUpperCase ''GET'' = ''GET''"
  by (simp add: toUpperCase_def upper_char_def)

section \<open>The assembled request\<close>

lemma fetchOptions_Inr:
  assumes "urlWithPathParams (baseUrl inst) t (getPathParams inst m) inputs = Inr u"
  shows "fetchOptions qs t opts m inst inputs =
           Inr \<lparr>url = urlWithQueryString qs u (getQueryParams inst m inputs),
                http_method = toUpperCase (case api_method opts of None \<Rightarrow> ''GET'' | Some x \<Rightarrow> x),
                request_headers = withAuthorization inst (mergedHeaders inst opts),
                body = Undefined\<rparr>"
  using assms by (simp add: fetchOptions_def)

lemma RestApi_default:
  assumes "urlWithPathParams (baseUrl inst) t (getPathParams inst m) inputs = Inr u"
    and "request_transform opts = None"
  shows "\<exists>r. RestApi qs t opts m inst inputs = Inr r
     \<and> url r = urlWithQueryString qs u (getQueryParams inst m inputs)
     \<and> http_method r = toUpperCase (case api_method opts of None \<Rightarrow> ''GET'' | Some x \<Rightarrow> x)
     \<and> request_headers r = withAuthorization inst (mergedHeaders inst opts)
     \<and> body r = (if http_method r = ''GET'' then Undefined
                 else if isOfTypeJson (request_headers r ''Accept'')
                      then JSON_stringify (getRequestBody inst m inputs)
                      else if truthy (getRequestBody inst m inputs)
                           then getRequestBody inst m inputs else Null)"
  using assms by (simp add: RestApi_def fetchOptions_Inr defaultRequestTransform_def)

section \<open>The default request transform\<close>

lemma truthy_iff:
  "truthy b = (\<not> (b = Undefined \<or> b = Null \<or> b = Str [] \<or> b = Number 0 \<or> b = Bool False))"
  by (cases b) auto

text \<open>
  Claim C3 as stated fails for a body value that is present and falsy: with the method
  \<^verbatim>\<open>POST\<close> and the \<^verbatim>\<open>Accept\<close> header \<^verbatim>\<open>text/plain\<close>, the empty string and the number 0 are
  not passed through; the body is \<^verbatim>\<open>null\<close>.
\<close>

theorem C3_counterexample:
  "sent_body (defaultRequestTransform
      (json_request\<lparr>request_headers := [''Accept'' \<mapsto> ''text/plain'']\<rparr>) (Str []) example_client)
     = Inr Null
   \<and> sent_body (defaultRequestTransform
      (json_request\<lparr>request_headers := [''Accept'' \<mapsto> ''text/plain'']\<rparr>) (Number 0) example_client)
     = Inr Null"
  by code_simp

text \<open>
  Claim C3, amended. The default request transform resolves for every fetch-options
  object and body, and changes nothing but the body. For the method \<^verbatim>\<open>GET\<close> the body it
  sets is \<^verbatim>\<open>undefined\<close>, whatever body was bound. For any other method: if the \<^verbatim>\<open>Accept\<close>
  header, put in lower case, contains \<^verbatim>\<open>application/json\<close> (as it does when it contains it
  as written), the body is \<^verbatim>\<open>JSON.stringify\<close> of the body value; otherwise (also when there
  is no \<^verbatim>\<open>Accept\<close> header) the body is \<^verbatim>\<open>null\<close> when the body value is falsy, that is
  \<^verbatim>\<open>undefined\<close>, \<^verbatim>\<open>null\<close>, the empty string, 0 or \<^verbatim>\<open>false\<close>, and the body value unchanged
  in every other case.
\<close>

theorem C3_default_request_transform:
  "defaultRequestTransform f b i =
     Inr (f\<lparr>body :=
       (if http_method f = ''GET'' then Undefined
        else if sublist ''application/json''
                  (toLowerCase (case request_headers f ''Accept'' of None \<Rightarrow> [] | Some a \<Rightarrow> a))
             then JSON_stringify b
             else if b = Undefined \<or> b = Null \<or> b = Str [] \<or> b = Number 0 \<or> b = Bool False
                  then Null else b)\<rparr>)
   \<and> (\<forall>a. sublist ''application/json'' a \<longrightarrow> sublist ''application/json'' (toLowerCase a))"
proof -
  have "sublist ''application/json'' (toLowerCase a)" if "sublist ''application/json'' a" for a
    using sublist_toLowerCase [OF that] by (simp add: toLowerCase_json)
  then show ?thesis
    by (simp add: defaultRequestTransform_def isOfTypeJson_iff truthy_iff)
qed

theorem C3_default_request_transform_witness:
  \<open>sent_body (defaultRequestTransform (json_request\<lparr>http_method := ''GET''\<rparr>)
       (Obj [(''x'', Number 1)]) example_client) = Inr Undefined
   \<and> sent_body (defaultRequestTransform json_request (Obj [(''x'', Number 1)]) example_client)
       = Inr (Str ''{"x":1}'')
   \<and> sent_body (defaultRequestTransform
       (json_request\<lparr>request_headers := [''Accept'' \<mapsto> ''Application/JSON; charset=utf-8'']\<rparr>)
       (Obj [(''x'', Number 1)]) example_client) = Inr (Str ''{"x":1}'')
   \<and> sent_body (defaultRequestTransform
       (json_request\<lparr>request_headers := [''Accept'' \<mapsto> ''text/plain'']\<rparr>)
       (Obj [(''x'', Number 1)]) example_client) = Inr (Obj [(''x'', Number 1)])
   \<and> sent_body (defaultRequestTransform
       (json_request\<lparr>request_headers := [''Accept'' \<mapsto> ''text/plain'']\<rparr>)
       Undefined example_client) = Inr Null
   \<and> sent_body (defaultRequestTransform
       (json_request\<lparr>request_headers := [''Accept'' \<mapsto> ''text/plain'']\<rparr>)
       (Bool False) example_client) = Inr Null\<close>
proof -
  have m: "http_method (json_request\<lparr>http_method := ''GET''\<rparr>) = ''GET''"
          "http_method json_request \<noteq> ''GET''"
          "http_method (json_request\<lparr>request_headers := h\<rparr>) \<noteq> ''GET''" for h
    by (simp_all add: json_request_def)
  have j: "sublist ''application/json''
             (toLowerCase (case request_headers json_request ''Accept'' of None \<Rightarrow> [] | Some a \<Rightarrow> a))"
          "sublist ''application/json''
             (toLowerCase (case request_headers
                (json_request\<lparr>request_headers := [''Accept'' \<mapsto> ''Application/JSON; charset=utf-8'']\<rparr>)
                ''Accept'' of None \<Rightarrow> [] | Some a \<Rightarrow> a))"
          "\<not> sublist ''application/json''
             (toLowerCase (case request_headers
                (json_request\<lparr>request_headers := [''Accept'' \<mapsto> ''text/plain'']\<rparr>)
                ''Accept'' of None \<Rightarrow> [] | Some a \<Rightarrow> a))"
    by code_simp+
  have s: \<open>JSON_stringify (Obj [(''x'', Number 1)]) = Str ''{"x":1}''\<close>
    by code_simp
  have a: "sent_body (defaultRequestTransform (json_request\<lparr>http_method := ''GET''\<rparr>)
       (Obj [(''x'', Number 1)]) example_client) = Inr Undefined"
    using C3_default_request_transform [of "json_request\<lparr>http_method := ''GET''\<rparr>"
            "Obj [(''x'', Number 1)]" example_client] m(1)
    by (simp add: sent_body_def)
  have b: \<open>sent_body (defaultRequestTransform json_request (Obj [(''x'', Number 1)]) example_client)
       = Inr (Str ''{"x":1}'')\<close>
    using C3_default_request_transform [of json_request "Obj [(''x'', Number 1)]" example_client]
      m(2) j(1) s
    by (simp add: sent_body_def)
  have c: \<open>sent_body (defaultRequestTransform
       (json_request\<lparr>request_headers := [''Accept'' \<mapsto> ''Application/JSON; charset=utf-8'']\<rparr>)
       (Obj [(''x'', Number 1)]) example_client) = Inr (Str ''{"x":1}'')\<close>
    using C3_default_request_transform
            [of "json_request\<lparr>request_headers := [''Accept'' \<mapsto> ''Application/JSON; charset=utf-8'']\<rparr>"
                "Obj [(''x'', Number 1)]" example_client]
      m(3) j(2) s
    by (simp add: sent_body_def)
  have d: "sent_body (defaultRequestTransform
       (json_request\<lparr>request_headers := [''Accept'' \<mapsto> ''text/plain'']\<rparr>)
       v example_client)
       = Inr (if v = Undefined \<or> v = Null \<or> v = Str [] \<or> v = Number 0 \<or> v = Bool False
              then Null else v)" for v
    using C3_default_request_transform
            [of "json_request\<lparr>request_headers := [''Accept'' \<mapsto> ''text/plain'']\<rparr>" v example_client]
      m(3) j(3)
    by (simp add: sent_body_def)
  from a b c d [of "Obj [(''x'', Number 1)]"] d [of Undefined] d [of "Bool False"]
  show ?thesis
    by simp
qed

section \<open>The HTTP method\<close>

text \<open>
  Claim C10. Whenever the URL can be built, the fetch options handed to the request
  transform carry the configured method in upper case, \<^verbatim>\<open>GET\<close> when the options of the
  annotation give none. So with no method and with the spelling \<^verbatim>\<open>get\<close> the method is
  \<^verbatim>\<open>GET\<close>, and the default request transform then sends that method and attaches no body.
\<close>

theorem C10_method_default_and_upper_case:
  assumes "urlWithPathParams (baseUrl inst) t (getPathParams inst m) inputs = Inr u"
  shows "\<exists>fo. fetchOptions qs t opts m inst inputs = Inr fo
     \<and> http_method fo = toUpperCase (case api_method opts of None \<Rightarrow> ''GET'' | Some x \<Rightarrow> x)
     \<and> (api_method opts = None \<or> api_method opts = Some ''get'' \<longrightarrow> http_method fo = ''GET'')
     \<and> (request_transform opts = None \<longrightarrow>
          (\<exists>r. RestApi qs t opts m inst inputs = Inr r \<and> http_method r = http_method fo
             \<and> (api_method opts = None \<or> api_method opts = Some ''get'' \<longrightarrow> body r = Undefined)))"
proof -
  let ?fo = "\<lparr>url = urlWithQueryString qs u (getQueryParams inst m inputs),
                http_method = toUpperCase (case api_method opts of None \<Rightarrow> ''GET'' | Some x \<Rightarrow> x),
                request_headers = withAuthorization inst (mergedHeaders inst opts),
                body = Undefined\<rparr>"
  have fo: "fetchOptions qs t opts m inst inputs = Inr ?fo"
    by (rule fetchOptions_Inr [OF assms])
  have up: "api_method opts = None \<or> api_method opts = Some ''get'' \<Longrightarrow> http_method ?fo = ''GET''"
    by (auto simp: toUpperCase_get toUpperCase_GET)
  have tr: "\<exists>r. RestApi qs t opts m inst inputs = Inr r \<and> http_method r = http_method ?fo
             \<and> (api_method opts = None \<or> api_method opts = Some ''get'' \<longrightarrow> body r = Undefined)"
    if "request_transform opts = None"
    using RestApi_default [OF assms that, of qs] up by auto
  show ?thesis
    using fo up tr by (intro exI [of _ ?fo]) simp
qed

theorem C10_method_default_and_upper_case_witness:
  "sent_method (RestApi qs_flat ''/users/{id}'' (no_options\<lparr>api_method := Some ''get''\<rparr>)
       ''getUser'' example_client [Str ''42'', Undefined, Obj [(''x'', Number 1)]]) = Inr ''GET''
   \<and> sent_body (RestApi qs_flat ''/users/{id}'' (no_options\<lparr>api_method := Some ''get''\<rparr>)
       ''getUser'' example_client [Str ''42'', Undefined, Obj [(''x'', Number 1)]]) = Inr Undefined"
proof -
  have u: "urlWithPathParams (baseUrl example_client) ''/users/{id}''
             (getPathParams example_client ''getUser'') [Str ''42'', Undefined, Obj [(''x'', Number 1)]]
           = Inr ''http://api.test/users/42''"
    by code_simp
  have o: "api_method (no_options\<lparr>api_method := Some ''get''\<rparr>) = Some ''get''"
          "request_transform (no_options\<lparr>api_method := Some ''get''\<rparr>) = None"
    by (simp_all add: no_options_def)
  from C10_method_default_and_upper_case [OF u, of qs_flat "no_options\<lparr>api_method := Some ''get''\<rparr>"]
  show ?thesis
    using o by (auto simp: sent_method_def sent_body_def)
qed

section \<open>The default response transform\<close>

text \<open>
  Claim C4. When the text of the response body can be read, the default response
  transform resolves (it raises no error): with an \<^verbatim>\<open>Accept\<close> header of the request that
  indicates JSON, to the value \<^verbatim>\<open>JSON.parse\<close> gives for the text, and to the text itself,
  unchanged, when \<^verbatim>\<open>JSON.parse\<close> throws; with any other \<^verbatim>\<open>Accept\<close> header, to the text.
\<close>

theorem C4_default_response_transform:
  assumes "resp_text resp = Inr respText"
  shows "\<exists>v. defaultResponseTransform JSON_parse f resp i = Inr v
     \<and> (isOfTypeJson (request_headers f ''Accept'') \<longrightarrow>
          (\<forall>parsed. JSON_parse respText = Inr parsed \<longrightarrow> v = parsed)
        \<and> (\<forall>e. JSON_parse respText = Inl e \<longrightarrow> v = Str respText))
     \<and> (\<not> isOfTypeJson (request_headers f ''Accept'') \<longrightarrow> v = Str respText)"
  using assms by (auto simp: defaultResponseTransform_def split: sum.splits)

theorem C4_default_response_transform_witness:
  \<open>defaultResponseTransform example_parse json_request (example_response ''{"a":1}'') example_client
     = Inr (Obj [(''a'', Number 1)])
   \<and> defaultResponseTransform example_parse json_request (example_response ''{oops'') example_client
     = Inr (Str ''{oops'')
   \<and> defaultResponseTransform example_parse
        (json_request\<lparr>request_headers := [''Accept'' \<mapsto> ''text/plain'']\<rparr>)
        (example_response ''{"a":1}'') example_client
     = Inr (Str ''{"a":1}'')\<close>
proof -
  have j: "isOfTypeJson (request_headers json_request ''Accept'')"
    by code_simp
  have n: "\<not> isOfTypeJson
               (request_headers (json_request\<lparr>request_headers := [''Accept'' \<mapsto> ''text/plain'']\<rparr>) ''Accept'')"
    by code_simp
  have p: \<open>example_parse ''{"a":1}'' = Inr (Obj [(''a'', Number 1)])\<close>
          \<open>example_parse ''{oops'' = Inl SyntaxError\<close>
    by (simp_all add: example_parse_def)
  have t: "resp_text (example_response x) = Inr x" for x
    by (simp add: example_response_def)
  have a: \<open>defaultResponseTransform example_parse json_request (example_response ''{"a":1}'') example_client
     = Inr (Obj [(''a'', Number 1)])\<close>
    using C4_default_response_transform [OF t, of example_parse json_request _ example_client] j p(1)
    by auto
  have b: \<open>defaultResponseTransform example_parse json_request (example_response ''{oops'') example_client
     = Inr (Str ''{oops'')\<close>
    using C4_default_response_transform [OF t, of example_parse json_request _ example_client] j p(2)
    by auto
  have c: \<open>defaultResponseTransform example_parse
        (json_request\<lparr>request_headers := [''Accept'' \<mapsto> ''text/plain'']\<rparr>)
        (example_response ''{"a":1}'') example_client
     = Inr (Str ''{"a":1}'')\<close>
    using C4_default_response_transform [OF t, of example_parse
           "json_request\<lparr>request_headers := [''Accept'' \<mapsto> ''text/plain'']\<rparr>" _ example_client] n
    by auto
  from a b c show ?thesis
    by simp
qed

section \<open>The client configurator and the registrations\<close>






section \<open>The Authorization header\<close>

lemma base64_encode_nonempty: "bs \<noteq> [] \<Longrightarrow> base64_encode bs \<noteq> []"
  by (cases bs rule: base64_encode.cases) auto

lemma utf8_bytes_nonempty: "s \<noteq> [] \<Longrightarrow> utf8_bytes s \<noteq> []"
  by (cases s) (auto simp: utf8_bytes_def Let_def)

text \<open>In Basic mode the credential is a non-empty string, whatever the properties hold.\<close>

lemma getCredential_Basic_truthy: "authType inst = ''Basic'' \<Longrightarrow> truthy (getCredential inst)"
  by (simp add: getCredential_def Let_def getBase64FromString_def base64_encode_nonempty
        utf8_bytes_nonempty)

text \<open>
  Claim C5. Whenever the URL can be built and the default request transform is used, the
  request carries, for a non-empty auth type and a truthy credential, the Authorization
  header made of the auth type, a space and the credential. In Bearer mode with a
  registered access-token property holding a non-empty string \<open>tok\<close> that is
  \<^verbatim>\<open>Bearer tok\<close>; in Basic mode with registered username and password properties holding the
  strings \<open>usr\<close> and \<open>pwd\<close> it is \<^verbatim>\<open>Basic\<close>, a space and the base64 encoding of
  \<open>usr:pwd\<close>.
\<close>

theorem C5_authorization_header:
  assumes "urlWithPathParams (baseUrl inst) t (getPathParams inst m) inputs = Inr u"
    and "request_transform opts = None"
  shows "\<exists>r. RestApi qs t opts m inst inputs = Inr r
     \<and> (authType inst \<noteq> [] \<and> truthy (getCredential inst) \<longrightarrow>
          request_headers r ''Authorization''
            = Some (authType inst @ '' '' @ to_string (getCredential inst)))
     \<and> (\<forall>p tok. authType inst = ''Bearer''
            \<and> atCredentialProperty (decorators inst) AccessToken = Some p
            \<and> props inst p = Str tok \<and> tok \<noteq> [] \<longrightarrow>
          request_headers r ''Authorization'' = Some (''Bearer '' @ tok))
     \<and> (\<forall>pu pp usr pwd. authType inst = ''Basic''
            \<and> atCredentialProperty (decorators inst) Username = Some pu
            \<and> atCredentialProperty (decorators inst) Password = Some pp
            \<and> props inst pu = Str usr \<and> props inst pp = Str pwd \<longrightarrow>
          request_headers r ''Authorization''
            = Some (''Basic '' @ base64_encode (utf8_bytes (usr @ '':'' @ pwd))))"
proof -
  from RestApi_default [OF assms, of qs] obtain r where
    r: "RestApi qs t opts m inst inputs = Inr r"
       "request_headers r = withAuthorization inst (mergedHeaders inst opts)"
    by blast
  have gen: "request_headers r ''Authorization''
               = Some (authType inst @ '' '' @ to_string (getCredential inst))"
    if "authType inst \<noteq> []" "truthy (getCredential inst)"
    using that r(2) by (simp add: withAuthorization_def Let_def)
  have bearer: "request_headers r ''Authorization'' = Some (''Bearer '' @ tok)"
    if "authType inst = ''Bearer''" "atCredentialProperty (decorators inst) AccessToken = Some p"
       "props inst p = Str tok" "tok \<noteq> []" for p tok
  proof -
    have "getCredential inst = Str tok"
      using that by (simp add: getCredential_def credential_property_def)
    with gen that show ?thesis by simp
  qed
  have basic: "request_headers r ''Authorization''
                 = Some (''Basic '' @ base64_encode (utf8_bytes (usr @ '':'' @ pwd)))"
    if "authType inst = ''Basic''" "atCredentialProperty (decorators inst) Username = Some pu"
       "atCredentialProperty (decorators inst) Password = Some pp"
       "props inst pu = Str usr" "props inst pp = Str pwd" for pu pp usr pwd
  proof -
    have "getCredential inst = Str (base64_encode (utf8_bytes (usr @ '':'' @ pwd)))"
      using that by (simp add: getCredential_def credential_property_def getBase64FromString_def)
    with gen [OF _ getCredential_Basic_truthy] that show ?thesis by simp
  qed
  show ?thesis
    using r(1) gen bearer basic by (intro exI [of _ r]) blast
qed

theorem C5_authorization_header_witness:
  "sent_header ''Authorization'' (RestApi qs_flat ''/ping'' no_options ''ping'' example_client [])
     = Inr (Some ''Bearer tok'')
   \<and> sent_header ''Authorization''
       (RestApi qs_flat ''/ping'' no_options ''ping'' (basic_client (Str ''u'') (Str ''p'')) [])
     = Inr (Some ''Basic dTpw'')"
proof -
  have u: "urlWithPathParams (baseUrl c) ''/ping'' (getPathParams c ''ping'') [] = Inr (baseUrl c @ ''/ping'')"
    if "getPathParams c ''ping'' = []" for c
    using that by (simp add: urlWithPathParams_def keys_order_def)
  have e: "getPathParams example_client ''ping'' = []"
          "getPathParams (basic_client (Str ''u'') (Str ''p'')) ''ping'' = []"
    by code_simp+
  have o: "request_transform no_options = None"
    by (simp add: no_options_def)
  have b: "authType example_client = ''Bearer''"
          "atCredentialProperty (decorators example_client) AccessToken = Some ''token''"
          "props example_client ''token'' = Str ''tok''"
    by code_simp+
  have c: "authType (basic_client (Str ''u'') (Str ''p'')) = ''Basic''"
          "atCredentialProperty (decorators (basic_client (Str ''u'') (Str ''p''))) Username = Some ''user''"
          "atCredentialProperty (decorators (basic_client (Str ''u'') (Str ''p''))) Password = Some ''pass''"
          "props (basic_client (Str ''u'') (Str ''p'')) ''user'' = Str ''u''"
          "props (basic_client (Str ''u'') (Str ''p'')) ''pass'' = Str ''p''"
    by code_simp+
  have d: "base64_encode (utf8_bytes (''u'' @ '':'' @ ''p'')) = ''dTpw''"
    by code_simp
  from C5_authorization_header [OF u [OF e(1)] o, of qs_flat]
       C5_authorization_header [OF u [OF e(2)] o, of qs_flat]
  show ?thesis
    using b c d by (auto simp: sent_header_def)
qed

section \<open>The query string\<close>

lemma getQueryParams_registered:
  assumes "atQueryParams (of_method (decorators inst) m) = Some i"
  shows "getQueryParams inst m inputs = (if truthy (arg_at inputs i) then arg_at inputs i else Obj [])"
  using assms by (simp add: getQueryParams_def arg_at_opt_def Let_def)

text \<open>
  Claim C6. For a method with a registered query-argument index, whenever the URL with
  its placeholders replaced can be built (\<open>u\<close>): if the argument at that index is an
  object (or an array) with at least one own key, the URL handed to the request
  transform is \<open>u\<close>, a question mark and the serialized query string; if it is an object
  with no own key, or is absent (\<^verbatim>\<open>undefined\<close>, \<^verbatim>\<open>null\<close>, or past the end of the
  arguments), the URL is \<open>u\<close>. The default request transform leaves the URL as it is.
  The query string encoder is a parameter.
\<close>

theorem C6_query_string:
  assumes "atQueryParams (of_method (decorators inst) m) = Some i"
    and "urlWithPathParams (baseUrl inst) t (getPathParams inst m) inputs = Inr u"
  shows "\<exists>fo. fetchOptions qs t opts m inst inputs = Inr fo
     \<and> (\<forall>kvs. arg_at inputs i = Obj kvs \<and> kvs \<noteq> [] \<longrightarrow> url fo = u @ ''?'' @ qs (Obj kvs))
     \<and> (\<forall>xs. arg_at inputs i = Arr xs \<and> xs \<noteq> [] \<longrightarrow> url fo = u @ ''?'' @ qs (Arr xs))
     \<and> (arg_at inputs i = Obj [] \<or> arg_at inputs i = Arr [] \<longrightarrow> url fo = u)
     \<and> (length inputs \<le> i \<or> arg_at inputs i = Undefined \<or> arg_at inputs i = Null \<longrightarrow> url fo = u)
     \<and> (request_transform opts = None \<longrightarrow>
           (\<exists>r. RestApi qs t opts m inst inputs = Inr r \<and> url r = url fo))"
proof -
  let ?q = "getQueryParams inst m inputs"
  let ?fo = "\<lparr>url = urlWithQueryString qs u ?q,
                http_method = toUpperCase (case api_method opts of None \<Rightarrow> ''GET'' | Some x \<Rightarrow> x),
                request_headers = withAuthorization inst (mergedHeaders inst opts),
                body = Undefined\<rparr>"
  have fo: "fetchOptions qs t opts m inst inputs = Inr ?fo"
    by (rule fetchOptions_Inr [OF assms(2)])
  have q: "?q = (if truthy (arg_at inputs i) then arg_at inputs i else Obj [])"
    by (rule getQueryParams_registered [OF assms(1)])
  have obj: "url ?fo = u @ ''?'' @ qs (Obj kvs)" if "arg_at inputs i = Obj kvs" "kvs \<noteq> []" for kvs
    using that q by (simp add: urlWithQueryString_def)
  have arr: "url ?fo = u @ ''?'' @ qs (Arr xs)" if "arg_at inputs i = Arr xs" "xs \<noteq> []" for xs
    using that q by (simp add: urlWithQueryString_def)
  have empty: "url ?fo = u" if "arg_at inputs i = Obj [] \<or> arg_at inputs i = Arr []"
    using that q by (auto simp: urlWithQueryString_def)
  have absent: "url ?fo = u"
    if "length inputs \<le> i \<or> arg_at inputs i = Undefined \<or> arg_at inputs i = Null"
    using that q by (auto simp: urlWithQueryString_def arg_at_def)
  have tr: "\<exists>r. RestApi qs t opts m inst inputs = Inr r \<and> url r = url ?fo"
    if "request_transform opts = None"
    using RestApi_default [OF assms(2) that, of qs] by auto
  show ?thesis
    using fo obj arr empty absent tr by (intro exI [of _ ?fo]) simp
qed

theorem C6_query_string_witness:
  "sent_url (RestApi qs_flat ''/users/{id}'' no_options ''getUser'' example_client
      [Str ''42'', Obj [(''a'', Number 1), (''b'', Number 2)]]) = Inr ''http://api.test/users/42?a=1&b=2''
   \<and> sent_url (RestApi qs_flat ''/users/{id}'' no_options ''getUser'' example_client
      [Str ''42'', Obj []]) = Inr ''http://api.test/users/42''
   \<and> sent_url (RestApi qs_flat ''/users/{id}'' no_options ''getUser'' example_client
      [Str ''42'']) = Inr ''http://api.test/users/42''"
proof -
  have q: "atQueryParams (of_method (decorators example_client) ''getUser'') = Some 1"
    by code_simp
  have g: "getPathParams example_client ''getUser'' = [(''id'', 0)]"
          "baseUrl example_client = ''http://api.test''"
          "keys_order [(''id'', 0)] = [(''id'', 0)]"
          "RegExp ''{id}'' = Inr [Lit (CHR ''{''), Lit (CHR ''i''), Lit (CHR ''d''), Lit (CHR ''}'')]"
    by code_simp+
  have u: "urlWithPathParams (baseUrl example_client) ''/users/{id}''
             (getPathParams example_client ''getUser'') (Str ''42'' # rest) = Inr ''http://api.test/users/42''" for rest
    by (simp add: urlWithPathParams_def g replacePathParam_def String_replace_def arg_at_def)
  have o: "request_transform no_options = None"
    by (simp add: no_options_def)
  have s: "qs_flat (Obj [(''a'', Number 1), (''b'', Number 2)]) = ''a=1&b=2''"
    by code_simp
  have a: "sent_url (RestApi qs_flat ''/users/{id}'' no_options ''getUser'' example_client
      [Str ''42'', Obj [(''a'', Number 1), (''b'', Number 2)]]) = Inr ''http://api.test/users/42?a=1&b=2''"
    using C6_query_string [OF q u [of "[Obj [(''a'', Number 1), (''b'', Number 2)]]"], where qs = qs_flat and opts = no_options] o s
    by (auto simp: sent_url_def arg_at_def)
  have b: "sent_url (RestApi qs_flat ''/users/{id}'' no_options ''getUser'' example_client
      [Str ''42'', Obj []]) = Inr ''http://api.test/users/42''"
    using C6_query_string [OF q u [of "[Obj []]"], where qs = qs_flat and opts = no_options] o
    by (auto simp: sent_url_def arg_at_def)
  have c: "sent_url (RestApi qs_flat ''/users/{id}'' no_options ''getUser'' example_client
      [Str ''42'']) = Inr ''http://api.test/users/42''"
    using C6_query_string [OF q u [of "[]"], where qs = qs_flat and opts = no_options] o
    by (auto simp: sent_url_def arg_at_def)
  from a b c show ?thesis
    by simp
qed

section \<open>The request headers\<close>





section \<open>Credentials that cannot be resolved\<close>

text \<open>
  In Digest mode, and in Bearer mode without a registered access-token property (on an
  instance with no property called \<^verbatim>\<open>undefined\<close>), computing the credential gives
  \<^verbatim>\<open>undefined\<close> and the headers stay as merged. In Basic mode the template literal turns
  whatever the two properties hold into text, so an Authorization header is always set.
\<close>

lemma withAuthorization_Digest:
  "authType inst = ''Digest'' \<Longrightarrow> withAuthorization inst h = h"
  by (simp add: withAuthorization_def getCredential_def)

lemma withAuthorization_Bearer_unregistered:
  assumes "authType inst = ''Bearer''"
    and "atCredentialProperty (decorators inst) AccessToken = None"
    and "props inst ''undefined'' = Undefined"
  shows "withAuthorization inst h = h"
  using assms by (simp add: withAuthorization_def getCredential_def credential_property_def)

lemma withAuthorization_Basic:
  assumes "authType inst = ''Basic''"
  shows "withAuthorization inst h ''Authorization''
           = Some (''Basic '' @ getBase64FromString
                (to_string (credential_property inst Username) @ '':''
                   @ to_string (credential_property inst Password)))"
  using assms getCredential_Basic_truthy [OF assms]
  by (simp add: withAuthorization_def Let_def) (simp add: getCredential_def Let_def)

text \<open>
  Claim C2 says that in Basic mode with no username and password no Authorization header
  is added. On a client in Basic mode with no credential property at all, and on one
  whose registered username and password properties are \<^verbatim>\<open>undefined\<close>, the call encodes
  the text \<^verbatim>\<open>undefined:undefined\<close> and sends it as the credential.
\<close>

theorem C2_basic_without_credentials:
  "sent_header ''Authorization''
     (RestApi qs_flat ''/ping'' no_options ''ping''
        (new_instance (RestClient (example_options\<lparr>rc_authType := Some ''Basic''\<rparr>) no_decorators)
           (\<lambda>p. Undefined)) [])
     = Inr (Some ''Basic dW5kZWZpbmVkOnVuZGVmaW5lZA=='')
   \<and> sent_header ''Authorization''
     (RestApi qs_flat ''/ping'' no_options ''ping'' (basic_client Undefined Undefined) [])
     = Inr (Some ''Basic dW5kZWZpbmVkOnVuZGVmaW5lZA=='')"
  by code_simp

section \<open>Placeholders in the URL\<close>

text \<open>
  The URL is built without an error whenever every bound name is in the fragment and is
  no braced quantifier; a name that is one makes the call throw.
\<close>

lemma RegExp_in_fragment:
  assumes "in_fragment name" and "\<not> braced_quantifier_body name"
  shows "RegExp (''{'' @ name @ ''}'') = Inr (Lit (CHR ''{'') # map atom_of name @ [Lit (CHR ''}'')])"
  using assms by (simp add: RegExp_def)

lemma replacePathParam_in_fragment:
  assumes "in_fragment (fst entry)" and "\<not> braced_quantifier_body (fst entry)"
  shows "replacePathParam inputs entry (Inr v)
           = Inr (String_replace v (Lit (CHR ''{'') # map atom_of (fst entry) @ [Lit (CHR ''}'')])
                    (arg_at inputs (snd entry)))"
  unfolding replacePathParam_def RegExp_in_fragment [OF assms] by simp

lemma set_keys_order: "set (keys_order pathParams) = set pathParams"
  by (auto simp: keys_order_def)

lemma keys_order_single: "keys_order [entry] = [entry]"
  by (simp add: keys_order_def)

lemma urlWithPathParams_no_error:
  assumes "list_all (\<lambda>entry. in_fragment (fst entry) \<and> \<not> braced_quantifier_body (fst entry)) pathParams"
  shows "\<exists>u. urlWithPathParams base template pathParams inputs = Inr u"
proof -
  have "\<exists>u. fold (replacePathParam inputs) entries (Inr v) = Inr u"
    if "list_all (\<lambda>entry. in_fragment (fst entry) \<and> \<not> braced_quantifier_body (fst entry)) entries"
    for v entries
    using that
  proof (induction entries arbitrary: v)
    case Nil
    show ?case by simp
  next
    case (Cons entry rest)
    then show ?case
      by (simp add: replacePathParam_in_fragment)
  qed
  moreover have "list_all (\<lambda>entry. in_fragment (fst entry) \<and> \<not> braced_quantifier_body (fst entry))
                   (keys_order pathParams)"
    using assms by (simp add: list_all_iff set_keys_order)
  ultimately show ?thesis
    by (simp add: urlWithPathParams_def)
qed

lemma urlWithPathParams_SyntaxError:
  assumes "braced_quantifier_body name" and "in_fragment name"
  shows "urlWithPathParams base template [(name, i)] inputs = Inl SyntaxError"
  using assms by (simp add: urlWithPathParams_def keys_order_single replacePathParam_def RegExp_def)

text \<open>
  For placeholder names without pattern syntax and arguments whose string form has no
  dollar sign, the regular expression is the token itself, the substitution is the
  argument's text, and the URL is the one the specification describes; no error is
  raised.
\<close>

lemma RegExp_plain_name:
  assumes "plain_name name"
  shows "RegExp (''{'' @ name @ ''}'') = Inr (map Lit (''{'' @ name @ ''}''))"
proof -
  have frag: "in_fragment name"
    using assms by (simp add: plain_name_def in_fragment_def list_all_iff)
  have "c \<noteq> CHR ''.''" if "c \<in> set name" for c
    using assms that by (auto simp: plain_name_def list_all_iff syntax_chars_def)
  then have atoms: "map atom_of name = map Lit name"
    by (simp add: atom_of_def)
  show ?thesis
    using assms frag atoms by (simp add: RegExp_def plain_name_def)
qed

lemma matches_prefix_Lit: "matches_prefix (map Lit tok) s = prefix tok s"
proof (induction tok arbitrary: s)
  case Nil
  show ?case by simp
next
  case (Cons a tok)
  then show ?case by (cases s) auto
qed

lemma GetSubstitution_no_dollar:
  "CHR ''$'' \<notin> set r \<Longrightarrow> GetSubstitution matched preceding following r = r"
  by (induction matched preceding following r rule: GetSubstitution.induct) auto

lemma replace_matches_literal:
  assumes "CHR ''$'' \<notin> set v"
  shows "replace_matches (map Lit tok) v scanned s = replace_token tok v s"
  using assms
proof (induction tok v s arbitrary: scanned rule: replace_token.induct)
  case (1 tok v)
  show ?case by simp
next
  case (2 tok v c cs)
  note subst = GetSubstitution_no_dollar [OF "2.prems"]
  show ?case
  proof (cases "tok \<noteq> [] \<and> prefix tok (c # cs)")
    case True
    with "2.IH"(1) [OF True "2.prems"] show ?thesis
      by (simp add: matches_prefix_Lit subst)
  next
    case False
    with "2.IH"(2) [OF False "2.prems"] show ?thesis
      by (auto simp: matches_prefix_Lit)
  qed
qed

lemma replacePathParam_literal:
  assumes "plain_name (fst entry)" and "CHR ''$'' \<notin> set (to_string (arg_at inputs (snd entry)))"
  shows "replacePathParam inputs entry (Inr u)
           = Inr (replace_token (''{'' @ fst entry @ ''}'') (to_string (arg_at inputs (snd entry))) u)"
proof -
  have "String_replace u (map Lit (''{'' @ fst entry @ ''}'')) (arg_at inputs (snd entry))
          = replace_token (''{'' @ fst entry @ ''}'') (to_string (arg_at inputs (snd entry))) u"
    unfolding String_replace_def by (rule replace_matches_literal [OF assms(2)])
  then show ?thesis
    unfolding replacePathParam_def RegExp_plain_name [OF assms(1)] by simp
qed

lemma plain_name_no_index:
  assumes "plain_name name"
  shows "\<not> is_array_index name"
proof
  assume "is_array_index name"
  then have "name \<noteq> []" and "list_all is_digit name"
    by (simp_all add: is_array_index_def canonical_uint_def)
  then have tw: "takeWhile is_digit name = name" and dw: "dropWhile is_digit name = []"
    by (simp_all add: takeWhile_eq_all_conv dropWhile_eq_Nil_conv list_all_iff)
  have "braced_quantifier_body name"
    unfolding braced_quantifier_body_def tw dw using \<open>name \<noteq> []\<close> by simp
  with assms show False
    by (simp add: plain_name_def)
qed

lemma keys_order_no_index:
  assumes "list_all (\<lambda>entry. \<not> is_array_index (fst entry)) pathParams"
  shows "keys_order pathParams = pathParams"
proof -
  have "filter (\<lambda>entry. is_array_index (fst entry)) pathParams = []"
    using assms by (simp add: filter_empty_conv list_all_iff)
  moreover have "filter (\<lambda>entry. \<not> is_array_index (fst entry)) pathParams = pathParams"
    using assms by (simp add: filter_id_conv list_all_iff)
  ultimately show ?thesis
    by (simp add: keys_order_def)
qed

lemma urlWithPathParams_literal:
  assumes "list_all (\<lambda>entry. plain_name (fst entry)
              \<and> CHR ''$'' \<notin> set (to_string (arg_at inputs (snd entry)))) pathParams"
  shows "urlWithPathParams base template pathParams inputs
           = Inr (spec_url base template pathParams inputs)"
proof -
  have "fold (replacePathParam inputs) pathParams (Inr u)
          = Inr (fold (\<lambda>entry u. replace_token (''{'' @ fst entry @ ''}'')
                    (to_string (arg_at inputs (snd entry))) u) pathParams u)" for u
    using assms
  proof (induction pathParams arbitrary: u)
    case Nil
    show ?case by simp
  next
    case (Cons entry rest)
    then show ?case
      by (simp add: replacePathParam_literal)
  qed
  moreover have "keys_order pathParams = pathParams"
    using assms by (intro keys_order_no_index) (simp add: list_all_iff plain_name_no_index)
  ultimately show ?thesis
    by (simp add: urlWithPathParams_def spec_url_def)
qed

text \<open>
  Claim C1 says that every occurrence of \<^verbatim>\<open>{id}\<close> is replaced by the string form of the
  bound argument. The argument is passed to \<^verbatim>\<open>String.prototype.replace\<close> as the replacement
  text, in which a dollar sign is special: for the argument \<^verbatim>\<open>$&\<close> the placeholder is
  replaced by the matched text, so the URL still holds \<^verbatim>\<open>{id}\<close> and not \<^verbatim>\<open>$&\<close>.
\<close>

theorem C1_dollar_sign_in_argument:
  "sent_url (RestApi qs_flat ''/users/{id}'' no_options ''getUser'' example_client [Str ''$&''])
     = Inr ''http://api.test/users/{id}''"
  by code_simp

text \<open>
  Further inputs on which the URL is not the one the claim describes: a doubled dollar
  sign comes out single; the name \<^verbatim>\<open>a.b\<close> is read as a pattern, so the placeholder
  \<^verbatim>\<open>{a-b}\<close>, which has no binding, is replaced as well; a name made of digits makes the
  \<^verbatim>\<open>RegExp\<close> constructor throw.
\<close>

lemma placeholder_replacement_further_inputs:
  "urlWithPathParams ''http://api.test'' ''/price/{p}'' [(''p'', 0)] [Str ''US$$5''] = Inr ''http://api.test/price/US$5''"
  "urlWithPathParams ''http://api.test'' ''/x/{a.b}/{a-b}'' [(''a.b'', 0)] [Str ''1''] = Inr ''http://api.test/x/1/1''"
  "urlWithPathParams ''http://api.test'' ''/x/{2}'' [(''2'', 0)] [Str ''1''] = Inl SyntaxError"
  by code_simp+

end
